theory Spec2Isabelle
  imports Complex_Main "HOL-Library.Word"
begin

section \<open>Common ground: Go values used by both collectors\<close>

text \<open>
  The repository holds two generations of the same exporter. The older one reads the
  Stoker's telnet stream line by line (\<^verbatim>\<open>setTemp\<close>, \<^verbatim>\<open>addError\<close>, \<^verbatim>\<open>reader\<close>,
  \<^verbatim>\<open>Collect\<close>); the newer one, \<^verbatim>\<open>main.go\<close>, polls the JSON endpoint
  (\<^verbatim>\<open>getStokerStatus\<close>, \<^verbatim>\<open>cleanName\<close>, \<^verbatim>\<open>recordMetrics\<close>, \<^verbatim>\<open>doMetrics\<close>,
  \<^verbatim>\<open>createMetrics\<close>). Both are modelled here by explicit state passing.

  Counters are Go \<^verbatim>\<open>int64\<close>: 64-bit words, on which \<open>+\<close> wraps around.
  A Go \<^verbatim>\<open>float64\<close> is kept abstract (the type variable \<open>'f\<close>): the functions that
  produce one (\<^verbatim>\<open>strconv.ParseFloat\<close>, \<^verbatim>\<open>json.Unmarshal\<close>) belong to the Go
  library and are parameters of the model.
\<close>

type_synonym int64 = "64 word"

text \<open>
  Go's \<^verbatim>\<open>error\<close> interface is \<open>error option\<close>, with \<open>None\<close> for \<^verbatim>\<open>nil\<close>.
  The constructors keep the format string and its arguments apart, so that no
  formatting verb has to be interpreted.
\<close>

datatype arg = ArgStr string | ArgInt int

datatype error =
    LibError string
  | ENew string
  | EErrorf string "arg list"
  | EWrap error string
  | EWrapf error string "arg list"

text \<open>
  \<^verbatim>\<open>github.com/pkg/errors\<close>: \<^verbatim>\<open>New\<close> and \<^verbatim>\<open>Errorf\<close> always build an error;
  \<^verbatim>\<open>Wrap\<close> and \<^verbatim>\<open>Wrapf\<close> return \<^verbatim>\<open>nil\<close> when the error they are given is
  \<^verbatim>\<open>nil\<close>.
\<close>

definition errors_New :: "string \<Rightarrow> error option" where
  "errors_New msg = Some (ENew msg)"

definition errors_Errorf :: "string \<Rightarrow> arg list \<Rightarrow> error option" where
  "errors_Errorf fmt args = Some (EErrorf fmt args)"

definition errors_Wrap :: "error option \<Rightarrow> string \<Rightarrow> error option" where
  "errors_Wrap err msg = (case err of None \<Rightarrow> None | Some e \<Rightarrow> Some (EWrap e msg))"

definition errors_Wrapf :: "error option \<Rightarrow> string \<Rightarrow> arg list \<Rightarrow> error option" where
  "errors_Wrapf err fmt args =
     (case err of None \<Rightarrow> None | Some e \<Rightarrow> Some (EWrapf e fmt args))"

text \<open>A call either returns or panics (an unrecovered panic ends the process).\<close>

datatype 'a exec = Returns 'a | Panics string

subsection \<open>The \<^verbatim>\<open>strings\<close> package\<close>

text \<open>
  \<^verbatim>\<open>strings.Split(s, sep)\<close> for a separator of one byte: the pieces between the
  occurrences of \<open>sep\<close>, always at least one piece.
\<close>

fun Split :: "string \<Rightarrow> char \<Rightarrow> string list" where
  "Split [] sep = [[]]"
| "Split (x # xs) sep =
     (if x = sep then [] # Split xs sep
      else (case Split xs sep of [] \<Rightarrow> [[x]] | t # ts \<Rightarrow> (x # t) # ts))"

definition HasSuffix :: "string \<Rightarrow> string \<Rightarrow> bool" where
  "HasSuffix s suf \<longleftrightarrow>
     length suf \<le> length s \<and> drop (length s - length suf) s = suf"

definition TrimSuffix :: "string \<Rightarrow> string \<Rightarrow> string" where
  "TrimSuffix s suf = (if HasSuffix s suf then take (length s - length suf) s else s)"

section \<open>The streaming collector\<close>

text \<open>
  The struct \<^verbatim>\<open>probe\<close>. Its fields \<^verbatim>\<open>id\<close>, \<^verbatim>\<open>blower\<close> and \<^verbatim>\<open>collections\<close>
  carry the suffix \<open>_p\<close> here (\<open>id\<close> is the identity function of HOL, the other two
  names are used again by the polling collector).
\<close>

record 'f probe =
  id_p :: string
  probeType :: string
  temperature :: 'f
  blower_p :: string
  collections_p :: int64

text \<open>
  The struct \<^verbatim>\<open>collector\<close> of the streaming program: the maps \<^verbatim>\<open>probes\<close> and
  \<^verbatim>\<open>collectErrors\<close>. Every \<^verbatim>\<open>*probe\<close> is reachable from its own key only, so the
  map holds the probes themselves. The mutex, the logger and the metric descriptors
  are never written after start-up and are left out of the state.
\<close>

record 'f collector_s =
  probes :: "string \<rightharpoonup> 'f probe"
  collectErrors :: "string \<rightharpoonup> int64"

definition addError :: "'f collector_s \<Rightarrow> string \<Rightarrow> 'f collector_s" where
  "addError c t =
     (let v = (case collectErrors c t of None \<Rightarrow> 0 | Some v \<Rightarrow> v);
          v = v + 1
      in c\<lparr>collectErrors := (collectErrors c)(t \<mapsto> v)\<rparr>)"

text \<open>
  The statements of \<^verbatim>\<open>setTemp\<close> after its \<^verbatim>\<open>switch\<close>: parse token 8 with
  \<^verbatim>\<open>strconv.ParseFloat(parts[8], 32)\<close>, then update the probe or create it.
  They run only when \<open>parts\<close> has at least 11 tokens.
\<close>

definition setTemp_store ::
  "(string \<Rightarrow> nat \<Rightarrow> error + 'f) \<Rightarrow> 'f collector_s \<Rightarrow> string list \<Rightarrow> string \<Rightarrow> string
     \<Rightarrow> (error option \<times> 'f collector_s) exec" where
  "setTemp_store ParseFloat c parts ident pType =
     (case ParseFloat (parts ! 8) 32 of
        Inl err \<Rightarrow>
          Returns (errors_Wrapf (Some err) ''failed to parse temperature %q'' [ArgStr (parts ! 8)],
                   addError c ''parseFloat'')
      | Inr t \<Rightarrow>
          (case probes c ident of
             Some p \<Rightarrow>
               Returns (None,
                 c\<lparr>probes := (probes c)(ident \<mapsto>
                      p\<lparr>collections_p := collections_p p + 1,
                        temperature := t,
                        blower_p := ''unknown''\<rparr>)\<rparr>)
           | None \<Rightarrow>
               Returns (None,
                 c\<lparr>probes := (probes c)(ident \<mapsto>
                      \<lparr>id_p = ident, probeType = pType, temperature = t,
                       blower_p = ''unknown'', collections_p = 1\<rparr>)\<rparr>)))"

definition setTemp ::
  "(string \<Rightarrow> nat \<Rightarrow> error + 'f) \<Rightarrow> 'f collector_s \<Rightarrow> string list
     \<Rightarrow> (error option \<times> 'f collector_s) exec" where
  "setTemp ParseFloat c parts =
     (case parts of
        [] \<Rightarrow> Panics ''index out of range''
      | ident # _ \<Rightarrow>
          if \<not> HasSuffix ident '':'' then Returns (None, c)
          else
            let ident = TrimSuffix ident '':'';
                l = length parts
            in if l = 11 then setTemp_store ParseFloat c parts ident ''food''
               else if l > 11 then
                 (if parts ! 10 \<noteq> ''PID:'' then
                    Returns (errors_Errorf ''unknown probe type %q'' [ArgStr (parts ! 10)],
                             addError c ''unknownProbe'')
                  else setTemp_store ParseFloat c parts ident ''pit'')
               else Returns (None, c))"

text \<open>
  \<^verbatim>\<open>reader\<close>: the lines that \<^verbatim>\<open>ReadLine\<close> hands out before it fails with
  \<open>rerr\<close>. Each line is split on single spaces and given to \<^verbatim>\<open>setTemp\<close>, whose
  error is logged and dropped; the failing read is counted and ends the call.
\<close>

fun reader ::
  "(string \<Rightarrow> nat \<Rightarrow> error + 'f) \<Rightarrow> 'f collector_s \<Rightarrow> string list \<Rightarrow> error
     \<Rightarrow> (error option \<times> 'f collector_s) exec" where
  "reader ParseFloat c [] rerr =
     Returns (errors_Wrap (Some rerr) ''ReadLine failed'', addError c ''readLine'')"
| "reader ParseFloat c (line # rest) rerr =
     (case setTemp ParseFloat c (Split line CHR '' '') of
        Panics m \<Rightarrow> Panics m
      | Returns (err, c') \<Rightarrow> reader ParseFloat c' rest rerr)"

text \<open>The two probe lines of the sample output quoted at the head of the source.\<close>

definition sample_food_line :: string where
  "sample_food_line = ''2B0000110A442730: 1.0 4.0 39.2 -7.5 -0.2 0.2 -0.0 0.3 32.4''"

definition sample_pit_line :: string where
  "sample_pit_line =
     ''2A0000110A314B30: 1.0 3.8 38.8 142.5 3.6 0.1 3.7 91.7 197.0 PID: NORM tgt:107.2 error:77.7 drive:2.0 istate:18.2 on:1 off:0 blwr:on''"

text \<open>
  Further lines for running the parser: the pit sample with another marker in place
  of \<open>PID:\<close>, a food line of 11 tokens whose token 8 is no number, and a line in
  the pit shape that carries the id of the food sample.
\<close>

definition unknown_marker_line :: string where
  "unknown_marker_line = ''2A0000110A314B30: 1.0 3.8 38.8 142.5 3.6 0.1 3.7 91.7 197.0 XYZ: NORM tgt:107.2''"

definition bad_temperature_line :: string where
  "bad_temperature_line = ''2B0000110A442730: 1.0 4.0 39.2 -7.5 -0.2 0.2 -0.0 n/a 32.4 ''"

definition pit_shaped_line :: string where
  "pit_shaped_line = ''2B0000110A442730: 1.0 3.8 38.8 142.5 3.6 0.1 3.7 91.7 197.0 PID: NORM tgt:107.2''"

text \<open>
  A reader of plain decimal tokens (optional sign, digits, optional fraction) that
  returns their exact value. It instantiates the \<open>ParseFloat\<close> parameter when the
  model is run on concrete lines; the general results hold for every \<open>ParseFloat\<close>.
\<close>

definition digit :: "char \<Rightarrow> nat option" where
  "digit ch =
     (if ch = CHR ''0'' then Some 0 else if ch = CHR ''1'' then Some 1
      else if ch = CHR ''2'' then Some 2 else if ch = CHR ''3'' then Some 3
      else if ch = CHR ''4'' then Some 4 else if ch = CHR ''5'' then Some 5
      else if ch = CHR ''6'' then Some 6 else if ch = CHR ''7'' then Some 7
      else if ch = CHR ''8'' then Some 8 else if ch = CHR ''9'' then Some 9
      else None)"

fun digits :: "nat \<Rightarrow> string \<Rightarrow> nat option" where
  "digits acc [] = Some acc"
| "digits acc (ch # cs) =
     (case digit ch of None \<Rightarrow> None | Some d \<Rightarrow> digits (10 * acc + d) cs)"

definition decimalParser :: "string \<Rightarrow> nat \<Rightarrow> error + rat" where
  "decimalParser s bitSize =
     (let (neg, body) =
            (case s of
               ch # r \<Rightarrow> if ch = CHR ''-'' then (True, r)
                         else if ch = CHR ''+'' then (False, r) else (False, s)
             | [] \<Rightarrow> (False, s));
          ip = takeWhile (\<lambda>ch. ch \<noteq> CHR ''.'') body;
          fp = drop 1 (dropWhile (\<lambda>ch. ch \<noteq> CHR ''.'') body)
      in if ip @ fp = [] then Inl (LibError ''invalid syntax'')
         else (case digits 0 (ip @ fp) of
                 None \<Rightarrow> Inl (LibError ''invalid syntax'')
               | Some n \<Rightarrow>
                   Inr ((if neg then - 1 else 1) * (of_nat n / 10 ^ length fp))))"

definition newCollector_s :: "'f collector_s" where
  "newCollector_s = \<lparr>probes = Map.empty, collectErrors = Map.empty\<rparr>"

section \<open>The polling collector\<close>

text \<open>
  The structs of \<^verbatim>\<open>main.go\<close>. The fields of \<^verbatim>\<open>blower\<close> carry the suffix \<open>_b\<close>
  where \<^verbatim>\<open>sensor\<close> has a field of the same name; the anonymous struct
  \<^verbatim>\<open>Stoker\<close> inside \<^verbatim>\<open>stokerResponse\<close> is flattened. \<^verbatim>\<open>On\<close> is a Go
  \<^verbatim>\<open>int\<close> that is decoded and exported but never computed with.
\<close>

record 'f sensor =
  ID :: string
  Name :: string
  Temp :: 'f
  Blower :: "string option"

record blower =
  ID_b :: string
  Name_b :: string
  On :: int

record 'f stokerResponse =
  Sensors :: "'f sensor list"
  Blowers :: "blower list"

text \<open>
  The collector of \<^verbatim>\<open>main.go\<close>: the two maps and the two aggregate counters. Its
  HTTP client, URL, interval, logger and mutex are configuration and are left out.
\<close>

record 'f collector =
  sensors :: "string \<rightharpoonup> 'f sensor"
  blowers :: "string \<rightharpoonup> blower"
  collections :: int64
  failures :: int64

definition newCollector :: "'f collector" where
  "newCollector = \<lparr>sensors = Map.empty, blowers = Map.empty, collections = 0, failures = 0\<rparr>"

text \<open>
  What the device's answer looks like to the program: the status code of an
  \<^verbatim>\<open>http.Response\<close> and what \<^verbatim>\<open>ioutil.ReadAll\<close> makes of its body.
  \<^verbatim>\<open>c.client.Do\<close> yields a response and an error, either of which can be \<^verbatim>\<open>nil\<close>.
\<close>

record response =
  StatusCode :: int
  Body :: "string \<times> error option"

text \<open>
  \<^verbatim>\<open>getStokerStatus\<close>. Its arguments are \<^verbatim>\<open>json.Unmarshal\<close> into a
  \<^verbatim>\<open>stokerResponse\<close> and the outcome of \<^verbatim>\<open>c.client.Do(req)\<close>. The variable
  \<open>err\<close> of the source is the one bound by that call until \<^verbatim>\<open>ReadAll\<close> rebinds it.
\<close>

definition getStokerStatus ::
  "(string \<Rightarrow> error + 'f stokerResponse) \<Rightarrow> response option \<times> error option
     \<Rightarrow> ('f stokerResponse option \<times> error option) exec" where
  "getStokerStatus Unmarshal do =
     (let (res, err) = do in
      if err \<noteq> None then Returns (None, errors_Wrap err ''http request failed'')
      else
        (case res of
           None \<Rightarrow> Panics ''nil pointer dereference''
         | Some res \<Rightarrow>
             if StatusCode res \<noteq> 200 then
               Returns (None, errors_Wrapf err ''unexpected HTTP status %d'' [ArgInt (StatusCode res)])
             else
               let (data, err) = Body res in
               if err \<noteq> None then Returns (None, errors_Wrap err ''failed to read response body'')
               else
                 (case Unmarshal data of
                    Inl err \<Rightarrow>
                      Returns (None, errors_Wrap (Some err) ''failed to unmarshal response body'')
                  | Inr s \<Rightarrow>
                      if length (Sensors s) = 0 then Returns (None, errors_New ''no sensors found'')
                      else Returns (Some s, None))))"

subsection \<open>\<^verbatim>\<open>cleanName\<close>\<close>

text \<open>
  \<^verbatim>\<open>strings.Replace(s, old, new, -1)\<close> for an \<open>old\<close> of one byte, and
  \<^verbatim>\<open>ReplaceAllString\<close> of the regular expression \<^verbatim>\<open>[^a-z0-9_]+\<close>: every maximal run of
  bytes outside the class is replaced once. A byte of a multi-byte character is never
  in the class, so working on bytes gives what the library gives on characters.
  \<^verbatim>\<open>strings.ToLower\<close> follows the Unicode tables and is a parameter.
\<close>

definition Replace :: "string \<Rightarrow> char \<Rightarrow> string \<Rightarrow> string" where
  "Replace s old new = concat (map (\<lambda>ch. if ch = old then new else [ch]) s)"

definition nameLabelClass :: "char \<Rightarrow> bool" where
  "nameLabelClass ch \<longleftrightarrow> ch \<in> set ''abcdefghijklmnopqrstuvwxyz0123456789_''"

fun replaceRuns :: "bool \<Rightarrow> string \<Rightarrow> string \<Rightarrow> string" where
  "replaceRuns inRun [] repl = []"
| "replaceRuns inRun (ch # cs) repl =
     (if \<not> nameLabelClass ch then (if inRun then [] else repl) @ replaceRuns True cs repl
      else ch # replaceRuns False cs repl)"

definition nameLabelRegex_ReplaceAllString :: "string \<Rightarrow> string \<Rightarrow> string" where
  "nameLabelRegex_ReplaceAllString src repl = replaceRuns False src repl"

definition cleanName :: "(string \<Rightarrow> string) \<Rightarrow> string \<Rightarrow> string" where
  "cleanName ToLower in0 =
     (let in1 = Replace in0 CHR '' '' ''_'';
          in2 = ToLower in1
      in nameLabelRegex_ReplaceAllString in2 '''')"

text \<open>
  \<^verbatim>\<open>strings.ToLower\<close> on ASCII text, where it turns \<open>A\<close>..\<open>Z\<close> into \<open>a\<close>..\<open>z\<close> and
  keeps every other byte: the instance used to run \<^verbatim>\<open>cleanName\<close> on concrete names.
\<close>

definition lowerASCII :: "char \<Rightarrow> char" where
  "lowerASCII ch =
     (case map_of (zip ''ABCDEFGHIJKLMNOPQRSTUVWXYZ'' ''abcdefghijklmnopqrstuvwxyz'') ch of
        Some l \<Rightarrow> l | None \<Rightarrow> ch)"

definition ToLower_ASCII :: "string \<Rightarrow> string" where
  "ToLower_ASCII s = map lowerASCII s"

subsection \<open>\<^verbatim>\<open>recordMetrics\<close> and \<^verbatim>\<open>doMetrics\<close>\<close>

definition recordMetrics ::
  "(string \<Rightarrow> string) \<Rightarrow> (string \<Rightarrow> error + 'f stokerResponse) \<Rightarrow> 'f collector
     \<Rightarrow> response option \<times> error option \<Rightarrow> (error option \<times> 'f collector) exec" where
  "recordMetrics ToLower Unmarshal c do =
     (case getStokerStatus Unmarshal do of
        Panics m \<Rightarrow> Panics m
      | Returns (s, err) \<Rightarrow>
          if err \<noteq> None then Returns (errors_Wrap err ''failed to get stoker status'', c)
          else
            (case s of
               None \<Rightarrow> Panics ''nil pointer dereference''
             | Some s \<Rightarrow>
                 let sensors' =
                       foldl (\<lambda>m v. if ID v = '''' then m
                                     else m(ID v \<mapsto> v\<lparr>Name := cleanName ToLower (Name v)\<rparr>))
                         Map.empty (Sensors s);
                     blowers' =
                       foldl (\<lambda>m v. if ID_b v = '''' then m
                                     else m(ID_b v \<mapsto> v\<lparr>Name_b := cleanName ToLower (Name_b v)\<rparr>))
                         Map.empty (Blowers s)
                 in Returns (None, c\<lparr>sensors := sensors', blowers := blowers'\<rparr>)))"

definition doMetrics ::
  "(string \<Rightarrow> string) \<Rightarrow> (string \<Rightarrow> error + 'f stokerResponse) \<Rightarrow> 'f collector
     \<Rightarrow> response option \<times> error option \<Rightarrow> 'f collector exec" where
  "doMetrics ToLower Unmarshal c do =
     (let errCount = 0 in
      case recordMetrics ToLower Unmarshal c do of
        Panics m \<Rightarrow> Panics m
      | Returns (err, c) \<Rightarrow>
          let errCount = (if err \<noteq> None then 1 else errCount)
          in Returns (c\<lparr>collections := collections c + 1,
                        failures := failures c + errCount\<rparr>))"

subsection \<open>Export\<close>

text \<open>
  The descriptors that \<^verbatim>\<open>newCollector\<close> builds with \<^verbatim>\<open>newFuncMetric\<close>; they are
  never assigned again. Those of the streaming program carry the suffix \<open>_s\<close> where
  both programs use a name; the field \<^verbatim>\<open>help\<close> of a descriptor is \<open>help_d\<close>.
\<close>

record desc =
  fqName :: string
  help_d :: string
  variableLabels :: "string list"

definition metricsNamespace :: string where
  "metricsNamespace = ''stoker''"

definition newFuncMetric :: "string \<Rightarrow> string \<Rightarrow> string list \<Rightarrow> desc" where
  "newFuncMetric metricName docString labels =
     \<lparr>fqName = metricsNamespace @ ''_'' @ metricName, help_d = docString,
      variableLabels = labels\<rparr>"

definition sensorMetrics :: desc where
  "sensorMetrics = newFuncMetric ''sensor_temperature'' ''sensor temperature''
     [''id'', ''name'', ''blower'']"

definition blowerMetrics :: desc where
  "blowerMetrics = newFuncMetric ''blower_state'' ''blower state'' [''id'', ''name'']"

definition collectionMetrics :: desc where
  "collectionMetrics = newFuncMetric ''collections_total''
     ''number of times data has been collected'' []"

definition failureMetrics :: desc where
  "failureMetrics = newFuncMetric ''failures_total''
     ''number of errors while collecting metrics'' []"

definition probeMetrics :: desc where
  "probeMetrics = newFuncMetric ''probe_status'' ''probe status'' [''type'', ''id'', ''blower'']"

definition collectionMetrics_s :: desc where
  "collectionMetrics_s = newFuncMetric ''probe_collections_total''
     ''number of times data has been collected'' [''type'', ''id'']"

definition collectErrorMetrics :: desc where
  "collectErrorMetrics = newFuncMetric ''collect_failures_total''
     ''number of errors while collecting metrics'' [''type'']"

datatype valueType = CounterValue | GaugeValue

text \<open>
  The value handed to \<^verbatim>\<open>prometheus.NewConstMetric\<close>: a \<^verbatim>\<open>float64\<close> as it is, or
  the conversion \<^verbatim>\<open>float64(x)\<close> of an \<^verbatim>\<open>int64\<close> or an \<^verbatim>\<open>int\<close>.
  \<^verbatim>\<open>NewConstMetric\<close> itself is a parameter: it may fail on any call.
\<close>

datatype 'f metricValue = Float64 'f | Float64_of_int64 int64 | Float64_of_int int

text \<open>
  Go visits the entries of a map in an order it does not fix. The order is an
  argument of the model: the list of keys a \<^verbatim>\<open>range\<close> loop visits.
\<close>

definition rangeValues :: "('k \<rightharpoonup> 'v) \<Rightarrow> 'k list \<Rightarrow> 'v list" where
  "rangeValues m ks = List.map_filter m ks"

definition rangeEntries :: "('k \<rightharpoonup> 'v) \<Rightarrow> 'k list \<Rightarrow> ('k \<times> 'v) list" where
  "rangeEntries m ks = List.map_filter (\<lambda>k. map_option (Pair k) (m k)) ks"

text \<open>
  \<^verbatim>\<open>createMetrics\<close> of \<^verbatim>\<open>main.go\<close> returns the metrics it could build, and the
  collector as the call leaves it.
\<close>

definition createMetrics ::
  "(desc \<Rightarrow> valueType \<Rightarrow> 'f metricValue \<Rightarrow> string list \<Rightarrow> error + 'm) \<Rightarrow> string list
     \<Rightarrow> string list \<Rightarrow> 'f collector \<Rightarrow> 'm list \<times> 'f collector" where
  "createMetrics NewConstMetric sensorOrder blowerOrder c =
     (let metrics = [];
          metrics =
            (case NewConstMetric failureMetrics CounterValue (Float64_of_int64 (failures c)) [] of
               Inr m \<Rightarrow> metrics @ [m] | Inl err \<Rightarrow> metrics);
          metrics =
            (case NewConstMetric collectionMetrics CounterValue (Float64_of_int64 (collections c)) [] of
               Inr m \<Rightarrow> metrics @ [m] | Inl err \<Rightarrow> metrics);
          metrics =
            foldl (\<lambda>metrics v.
                     let blower = (case Blower v of None \<Rightarrow> [] | Some b \<Rightarrow> b)
                     in case NewConstMetric sensorMetrics GaugeValue (Float64 (Temp v))
                               [ID v, Name v, blower] of
                          Inr m \<Rightarrow> metrics @ [m] | Inl err \<Rightarrow> metrics)
              metrics (rangeValues (sensors c) sensorOrder);
          metrics =
            foldl (\<lambda>metrics v.
                     case NewConstMetric blowerMetrics GaugeValue (Float64_of_int (On v))
                            [ID_b v, Name_b v] of
                       Inr m \<Rightarrow> metrics @ [m] | Inl err \<Rightarrow> metrics)
              metrics (rangeValues (blowers c) blowerOrder)
      in (metrics, c))"

text \<open>
  \<^verbatim>\<open>Collect\<close> of the streaming program sends each metric it could build on the
  channel \<open>ch\<close>, here the list of what has been sent.
\<close>

definition Collect_s ::
  "(desc \<Rightarrow> valueType \<Rightarrow> 'f metricValue \<Rightarrow> string list \<Rightarrow> error + 'm) \<Rightarrow> string list
     \<Rightarrow> string list \<Rightarrow> 'f collector_s \<Rightarrow> 'm list \<Rightarrow> 'm list \<times> 'f collector_s" where
  "Collect_s NewConstMetric errorOrder probeOrder c ch =
     (let ch =
            foldl (\<lambda>ch (k, v).
                     case NewConstMetric collectErrorMetrics CounterValue (Float64_of_int64 v) [k] of
                       Inl err \<Rightarrow> ch | Inr m \<Rightarrow> ch @ [m])
              ch (rangeEntries (collectErrors c) errorOrder);
          ch =
            foldl (\<lambda>ch v.
                     let ch =
                           (case NewConstMetric probeMetrics GaugeValue (Float64 (temperature v))
                                   [probeType v, id_p v, blower_p v] of
                              Inl err \<Rightarrow> ch | Inr m \<Rightarrow> ch @ [m])
                     in case NewConstMetric collectionMetrics_s CounterValue
                               (Float64_of_int64 (collections_p v)) [probeType v, id_p v] of
                          Inl err \<Rightarrow> ch | Inr m \<Rightarrow> ch @ [m])
              ch (rangeValues (probes c) probeOrder)
      in (ch, c))"

text \<open>A payload in the manner of the README, and a decoder that knows its text.\<close>

definition sample_payload :: "rat stokerResponse" where
  "sample_payload =
     \<lparr>Sensors =
        [\<lparr>ID = ''2A0000110A314B30'', Name = ''Pit Sensor'', Temp = 1174 / 10,
          Blower = Some ''3C0000001ADE7605''\<rparr>,
         \<lparr>ID = ''0E0000110A4E5730'', Name = ''4 Food Sensor'', Temp = 593 / 10,
          Blower = None\<rparr>],
      Blowers = [\<lparr>ID_b = ''3C0000001ADE7605'', Name_b = ''Big Green Egg!'', On = 0\<rparr>]\<rparr>"

definition sample_Unmarshal :: "string \<Rightarrow> error + rat stokerResponse" where
  "sample_Unmarshal data =
     (if data = ''sample'' then Inr sample_payload
      else if data = ''empty'' then Inr \<lparr>Sensors = [], Blowers = []\<rparr>
      else Inl (LibError ''invalid character''))"

section \<open>Facts about the streaming parser\<close>

lemma Split_not_Nil: "Split s sep \<noteq> []"
  by (induction s) (auto split: list.splits)

lemma addError_probes: "probes (addError c t) = probes c"
  by (simp add: addError_def Let_def)

lemma addError_collectErrors:
  "collectErrors (addError c t) =
     (collectErrors c)(t \<mapsto> (case collectErrors c t of None \<Rightarrow> 0 | Some v \<Rightarrow> v) + 1)"
  by (simp add: addError_def Let_def)

lemma addError_eq:
  "addError c t =
     c\<lparr>collectErrors :=
         (collectErrors c)(t \<mapsto> (case collectErrors c t of None \<Rightarrow> 0 | Some v \<Rightarrow> v) + 1)\<rparr>"
  by (simp add: addError_def Let_def)

lemma setTemp_Cons:
  "setTemp ParseFloat c (tok # toks) =
     (if \<not> HasSuffix tok '':'' then Returns (None, c)
      else if length toks = 10 then
        setTemp_store ParseFloat c (tok # toks) (TrimSuffix tok '':'') ''food''
      else if 10 < length toks then
        (if (tok # toks) ! 10 \<noteq> ''PID:'' then
           Returns (Some (EErrorf ''unknown probe type %q'' [ArgStr ((tok # toks) ! 10)]),
                    addError c ''unknownProbe'')
         else setTemp_store ParseFloat c (tok # toks) (TrimSuffix tok '':'') ''pit'')
      else Returns (None, c))"
  by (simp add: setTemp_def Let_def errors_Errorf_def)

lemma setTemp_store_ok:
  assumes "ParseFloat (parts ! 8) 32 = Inr t"
  shows "setTemp_store ParseFloat c parts ident k =
     Returns (None,
       c\<lparr>probes := (probes c)(ident \<mapsto>
           (case probes c ident of
              None \<Rightarrow> \<lparr>id_p = ident, probeType = k, temperature = t,
                        blower_p = ''unknown'', collections_p = 1\<rparr>
            | Some p \<Rightarrow> p\<lparr>collections_p := collections_p p + 1, temperature := t,
                          blower_p := ''unknown''\<rparr>))\<rparr>)"
  using assms by (simp add: setTemp_store_def split: option.splits)

lemma setTemp_store_err:
  assumes "ParseFloat (parts ! 8) 32 = Inl err"
  shows "setTemp_store ParseFloat c parts ident k =
     Returns (Some (EWrapf err ''failed to parse temperature %q'' [ArgStr (parts ! 8)]),
              addError c ''parseFloat'')"
  using assms by (simp add: setTemp_store_def errors_Wrapf_def)

lemma setTemp_store_keeps_kind:
  assumes "probes c i = Some p" and "setTemp_store ParseFloat c parts ident k = Returns (e, c')"
  shows "\<exists>p'. probes c' i = Some p' \<and> probeType p' = probeType p \<and> id_p p' = id_p p"
  using assms
  by (auto simp: setTemp_store_def addError_probes split: sum.splits option.splits if_splits)

lemma setTemp_keeps_kind:
  assumes "probes c i = Some p" and "setTemp ParseFloat c parts = Returns (e, c')"
  shows "\<exists>p'. probes c' i = Some p' \<and> probeType p' = probeType p \<and> id_p p' = id_p p"
proof (cases parts)
  case Nil
  with assms show ?thesis by (simp add: setTemp_def)
next
  case (Cons tok toks)
  with assms show ?thesis
    by (auto simp: setTemp_Cons addError_probes split: if_splits
             dest: setTemp_store_keeps_kind)
qed

lemma setTemp_Split_returns:
  "\<exists>e c'. setTemp ParseFloat c (Split line sep) = Returns (e, c')"
proof (cases "Split line sep")
  case Nil
  then show ?thesis by (simp add: Split_not_Nil)
next
  case (Cons tok toks)
  then show ?thesis
    by (auto simp: setTemp_Cons setTemp_store_def split: sum.splits option.splits)
qed

lemma reader_keeps_kind_aux:
  "probes c i = Some p \<Longrightarrow>
   \<exists>e c' p'. reader ParseFloat c lines rerr = Returns (e, c') \<and>
     probes c' i = Some p' \<and> probeType p' = probeType p \<and> id_p p' = id_p p"
proof (induction lines arbitrary: c p)
  case Nil
  then show ?case by (simp add: addError_probes)
next
  case (Cons line rest)
  obtain e c1 where st: "setTemp ParseFloat c (Split line CHR '' '') = Returns (e, c1)"
    using setTemp_Split_returns by blast
  from setTemp_keeps_kind [OF Cons.prems st]
  obtain p1 where p1: "probes c1 i = Some p1" "probeType p1 = probeType p" "id_p p1 = id_p p"
    by blast
  from Cons.IH [OF p1(1)] p1 st show ?case by auto
qed

lemma setTemp_valid:
  assumes "parts \<noteq> []" and "HasSuffix (hd parts) '':''"
    and "(length parts = 11 \<and> k = ''food'') \<or>
         (11 < length parts \<and> parts ! 10 = ''PID:'' \<and> k = ''pit'')"
    and "ParseFloat (parts ! 8) 32 = Inr t"
  shows "setTemp ParseFloat c parts =
     Returns (None,
       c\<lparr>probes := (probes c)(TrimSuffix (hd parts) '':'' \<mapsto>
           (case probes c (TrimSuffix (hd parts) '':'') of
              None \<Rightarrow> \<lparr>id_p = TrimSuffix (hd parts) '':'', probeType = k, temperature = t,
                        blower_p = ''unknown'', collections_p = 1\<rparr>
            | Some p \<Rightarrow> p\<lparr>collections_p := collections_p p + 1, temperature := t,
                          blower_p := ''unknown''\<rparr>))\<rparr>)"
proof -
  from assms(1) obtain tok toks where parts: "parts = tok # toks"
    by (cases parts) auto
  from assms(2,3) setTemp_store_ok [of ParseFloat parts t] assms(4) show ?thesis
    unfolding parts by (auto simp: setTemp_Cons cong: option.case_cong)
qed

lemma setTemp_parse_failure:
  assumes "parts \<noteq> []" and "HasSuffix (hd parts) '':''"
    and "length parts = 11 \<or> (11 < length parts \<and> parts ! 10 = ''PID:'')"
    and "ParseFloat (parts ! 8) 32 = Inl err"
  shows "setTemp ParseFloat c parts =
     Returns (Some (EWrapf err ''failed to parse temperature %q'' [ArgStr (parts ! 8)]),
              addError c ''parseFloat'')"
proof -
  from assms(1) obtain tok toks where parts: "parts = tok # toks"
    by (cases parts) auto
  from assms(2,3) setTemp_store_err [of ParseFloat parts err] assms(4) show ?thesis
    unfolding parts by (auto simp: setTemp_Cons)
qed

lemma setTemp_unknown_probe:
  assumes "parts \<noteq> []" and "HasSuffix (hd parts) '':''"
    and "11 < length parts" and "parts ! 10 \<noteq> ''PID:''"
  shows "setTemp ParseFloat c parts =
     Returns (Some (EErrorf ''unknown probe type %q'' [ArgStr (parts ! 10)]),
              addError c ''unknownProbe'')"
proof -
  from assms(1) obtain tok toks where parts: "parts = tok # toks"
    by (cases parts) auto
  from assms(2-4) show ?thesis
    unfolding parts by (auto simp: setTemp_Cons)
qed

lemma setTemp_creates:
  assumes "probes c i = None" and "setTemp ParseFloat c parts = Returns (e, c1)"
    and "probes c1 i = Some p1"
  shows "e = None \<and> probeType p1 = (if length parts = 11 then ''food'' else ''pit'') \<and>
         i = TrimSuffix (hd parts) '':''"
proof (cases parts)
  case Nil
  with assms show ?thesis by (simp add: setTemp_def)
next
  case (Cons tok toks)
  with assms show ?thesis
    by (auto simp: setTemp_Cons setTemp_store_def addError_probes
        split: if_splits sum.splits option.splits)
qed

lemma setTemp_error_cases:
  assumes "setTemp ParseFloat c parts = Returns (Some e, c')"
  shows "probes c' = probes c \<and> parts \<noteq> [] \<and> HasSuffix (hd parts) '':'' \<and>
     ((11 < length parts \<and> parts ! 10 \<noteq> ''PID:'' \<and>
       e = EErrorf ''unknown probe type %q'' [ArgStr (parts ! 10)] \<and>
       c' = addError c ''unknownProbe'') \<or>
      ((length parts = 11 \<or> (11 < length parts \<and> parts ! 10 = ''PID:'')) \<and>
       (\<exists>err. ParseFloat (parts ! 8) 32 = Inl err \<and>
          e = EWrapf err ''failed to parse temperature %q'' [ArgStr (parts ! 8)]) \<and>
       c' = addError c ''parseFloat''))"
proof (cases parts)
  case Nil
  with assms show ?thesis by (simp add: setTemp_def)
next
  case (Cons tok toks)
  with assms show ?thesis
    by (auto simp: setTemp_Cons setTemp_store_def addError_probes errors_Wrapf_def
        split: if_splits sum.splits option.splits)
qed

text \<open>Adding 2 to an \<^verbatim>\<open>int64\<close> is adding 2 to its value unless it overflows.\<close>

lemma int64_add2_no_overflow:
  fixes v :: int64
  assumes "sint v < 2 ^ 63 - 2"
  shows "sint (v + 2) = sint v + 2"
proof -
  have lo: "- (2 ^ 63) \<le> sint v" using sint_ge [of v] by simp
  have "sint (v + 2) = signed_take_bit 63 (sint v + sint (2 :: int64))"
    by (simp add: sint_word_ariths)
  also have "sint (2 :: int64) = 2" by simp
  also have "signed_take_bit 63 (sint v + 2) = sint v + 2"
    using lo assms by (intro signed_take_bit_int_eq_self) simp_all
  finally show ?thesis .
qed

text \<open>
  C3. A line of exactly 11 tokens whose first token ends with \<open>:\<close> is taken as a
  food probe, and token 8 is what is parsed: when \<^verbatim>\<open>ParseFloat\<close> accepts it, its
  value is the temperature stored for the entity, whose kind is food when the entity
  is new (an entity that exists keeps the kind it has); when \<^verbatim>\<open>ParseFloat\<close> rejects
  it, the call fails with the parse error and counts a \<open>parseFloat\<close> failure.
\<close>

theorem food_line_token8_temperature:
  assumes "length (Split line CHR '' '') = 11"
    and "HasSuffix (hd (Split line CHR '' '')) '':''"
  shows "case ParseFloat (Split line CHR '' '' ! 8) 32 of
           Inr t \<Rightarrow>
             (\<exists>c' p. setTemp ParseFloat c (Split line CHR '' '') = Returns (None, c') \<and>
                probes c' (TrimSuffix (hd (Split line CHR '' '')) '':'') = Some p \<and>
                temperature p = t \<and>
                probeType p =
                  (case probes c (TrimSuffix (hd (Split line CHR '' '')) '':'') of
                     None \<Rightarrow> ''food'' | Some q \<Rightarrow> probeType q))
         | Inl err \<Rightarrow>
             setTemp ParseFloat c (Split line CHR '' '') =
               Returns (Some (EWrapf err ''failed to parse temperature %q''
                                [ArgStr (Split line CHR '' '' ! 8)]),
                        addError c ''parseFloat'')"
proof (cases "ParseFloat (Split line CHR '' '' ! 8) 32")
  case (Inl err)
  with setTemp_parse_failure [of "Split line CHR '' ''" ParseFloat err c] assms
  show ?thesis by (simp add: Split_not_Nil)
next
  case (Inr t)
  from assms(1) have "(length (Split line CHR '' '') = 11 \<and> ''food'' = ''food'') \<or>
      (11 < length (Split line CHR '' '') \<and> Split line CHR '' '' ! 10 = ''PID:'' \<and> ''food'' = ''pit'')"
    by simp
  from setTemp_valid [of "Split line CHR '' ''" "''food''" ParseFloat t c] this assms(2) Inr
  show ?thesis by (auto simp: Split_not_Nil split: option.splits)
qed

theorem food_line_token8_temperature_witness:
  "length (Split (sample_food_line @ '' '') CHR '' '') = 11 \<and>
   HasSuffix (hd (Split (sample_food_line @ '' '') CHR '' '')) '':'' \<and>
   (\<exists>c' p. setTemp decimalParser (newCollector_s :: rat collector_s)
              (Split (sample_food_line @ '' '') CHR '' '') = Returns (None, c') \<and>
      probes c' ''2B0000110A442730'' = Some p \<and> temperature p = 3 / 10 \<and>
      probeType p = ''food'')"
proof -
  have h1: "length (Split (sample_food_line @ '' '') CHR '' '') = 11"
    by (simp add: sample_food_line_def)
  have h2: "HasSuffix (hd (Split (sample_food_line @ '' '') CHR '' '')) '':''"
    by (simp add: sample_food_line_def HasSuffix_def)
  have h3: "decimalParser (Split (sample_food_line @ '' '') CHR '' '' ! 8) 32 = Inr (3 / 10)"
    by (simp add: sample_food_line_def decimalParser_def digit_def)
  have h4: "TrimSuffix (hd (Split (sample_food_line @ '' '') CHR '' '')) '':'' = ''2B0000110A442730''"
    by (simp add: sample_food_line_def TrimSuffix_def HasSuffix_def)
  have h5: "probes (newCollector_s :: rat collector_s) ''2B0000110A442730'' = None"
    by (simp add: newCollector_s_def)
  from food_line_token8_temperature [OF h1 h2, of decimalParser newCollector_s]
  show ?thesis
    unfolding h3 h4 using h1 h2 h5 by simp
qed

text \<open>
  C5. A line whose first token does not end with \<open>:\<close>, and a line of fewer than 11
  tokens, is ignored: \<^verbatim>\<open>setTemp\<close> returns \<^verbatim>\<open>nil\<close> and the collector, its probes and
  its failure counters, is exactly as before.
\<close>

theorem setTemp_ignores_non_probe_lines:
  assumes "\<not> HasSuffix (hd (Split line CHR '' '')) '':'' \<or> length (Split line CHR '' '') < 11"
  shows "setTemp ParseFloat c (Split line CHR '' '') = Returns (None, c)"
proof (cases "Split line CHR '' ''")
  case Nil
  then show ?thesis by (simp add: Split_not_Nil)
next
  case (Cons tok toks)
  with assms show ?thesis
    by (auto simp: setTemp_def Let_def)
qed

theorem setTemp_ignores_non_probe_lines_witness:
  "length (Split ''Stoker: status ok'' CHR '' '') < 11 \<and>
   HasSuffix (hd (Split ''Stoker: status ok'' CHR '' '')) '':'' \<and>
   \<not> HasSuffix (hd (Split ''login as: 1 2 3 4 5 6 7 8 9 10 11 12'' CHR '' '')) '':'' \<and>
   11 < length (Split ''login as: 1 2 3 4 5 6 7 8 9 10 11 12'' CHR '' '') \<and>
   setTemp decimalParser (newCollector_s :: rat collector_s)
       (Split ''Stoker: status ok'' CHR '' '') = Returns (None, newCollector_s) \<and>
   setTemp decimalParser (newCollector_s :: rat collector_s)
       (Split ''login as: 1 2 3 4 5 6 7 8 9 10 11 12'' CHR '' '') = Returns (None, newCollector_s)"
proof -
  have h1: "length (Split ''Stoker: status ok'' CHR '' '') < 11"
    by simp
  have h2: "HasSuffix (hd (Split ''Stoker: status ok'' CHR '' '')) '':''"
    by (simp add: HasSuffix_def)
  have h3: "\<not> HasSuffix (hd (Split ''login as: 1 2 3 4 5 6 7 8 9 10 11 12'' CHR '' '')) '':''"
    by (simp add: HasSuffix_def)
  have h4: "11 < length (Split ''login as: 1 2 3 4 5 6 7 8 9 10 11 12'' CHR '' '')"
    by simp
  from h1 h2 h3 h4
    setTemp_ignores_non_probe_lines [OF disjI2 [OF h1], of decimalParser
      "newCollector_s :: rat collector_s"]
    setTemp_ignores_non_probe_lines [OF disjI1 [OF h3], of decimalParser
      "newCollector_s :: rat collector_s"]
  show ?thesis by blast
qed

text \<open>
  C4. A probe line that fails to parse counts exactly one failure and leaves every
  probe as it was. With more than 11 tokens and a token 10 other than \<open>PID:\<close> the
  error names that token and the counter \<open>unknownProbe\<close> goes up by one; a food or
  pit line whose token 8 \<^verbatim>\<open>ParseFloat\<close> rejects wraps the parse error and the
  counter \<open>parseFloat\<close> goes up by one. Conversely, whenever \<^verbatim>\<open>setTemp\<close> returns an
  error, the probes are untouched and the collector differs from the one before in
  one of these two counters only, by one (in \<^verbatim>\<open>int64\<close> arithmetic).
\<close>

theorem setTemp_failure_counts_once:
  assumes "HasSuffix (hd (Split line CHR '' '')) '':''"
  shows "(11 < length (Split line CHR '' '') \<and> Split line CHR '' '' ! 10 \<noteq> ''PID:'' \<longrightarrow>
            setTemp ParseFloat c (Split line CHR '' '') =
              Returns (Some (EErrorf ''unknown probe type %q'' [ArgStr (Split line CHR '' '' ! 10)]),
                c\<lparr>collectErrors := (collectErrors c)(''unknownProbe'' \<mapsto>
                     (case collectErrors c ''unknownProbe'' of None \<Rightarrow> 0 | Some v \<Rightarrow> v) + 1)\<rparr>)) \<and>
         ((length (Split line CHR '' '') = 11 \<or>
           (11 < length (Split line CHR '' '') \<and> Split line CHR '' '' ! 10 = ''PID:'')) \<and>
          ParseFloat (Split line CHR '' '' ! 8) 32 = Inl err \<longrightarrow>
            setTemp ParseFloat c (Split line CHR '' '') =
              Returns (Some (EWrapf err ''failed to parse temperature %q''
                               [ArgStr (Split line CHR '' '' ! 8)]),
                c\<lparr>collectErrors := (collectErrors c)(''parseFloat'' \<mapsto>
                     (case collectErrors c ''parseFloat'' of None \<Rightarrow> 0 | Some v \<Rightarrow> v) + 1)\<rparr>)) \<and>
         (setTemp ParseFloat c (Split line CHR '' '') = Returns (Some e, c') \<longrightarrow>
            probes c' = probes c \<and>
            (\<exists>t. (t = ''unknownProbe'' \<or> t = ''parseFloat'') \<and>
               c' = c\<lparr>collectErrors := (collectErrors c)(t \<mapsto>
                     (case collectErrors c t of None \<Rightarrow> 0 | Some v \<Rightarrow> v) + 1)\<rparr>))"
proof (intro conjI impI)
  assume "11 < length (Split line CHR '' '') \<and> Split line CHR '' '' ! 10 \<noteq> ''PID:''"
  with setTemp_unknown_probe [of "Split line CHR '' ''" ParseFloat c] assms
  show "setTemp ParseFloat c (Split line CHR '' '') =
      Returns (Some (EErrorf ''unknown probe type %q'' [ArgStr (Split line CHR '' '' ! 10)]),
        c\<lparr>collectErrors := (collectErrors c)(''unknownProbe'' \<mapsto>
             (case collectErrors c ''unknownProbe'' of None \<Rightarrow> 0 | Some v \<Rightarrow> v) + 1)\<rparr>)"
    by (simp add: Split_not_Nil addError_eq)
next
  assume "(length (Split line CHR '' '') = 11 \<or>
           (11 < length (Split line CHR '' '') \<and> Split line CHR '' '' ! 10 = ''PID:'')) \<and>
          ParseFloat (Split line CHR '' '' ! 8) 32 = Inl err"
  with setTemp_parse_failure [of "Split line CHR '' ''" ParseFloat err c] assms
  show "setTemp ParseFloat c (Split line CHR '' '') =
      Returns (Some (EWrapf err ''failed to parse temperature %q''
                       [ArgStr (Split line CHR '' '' ! 8)]),
        c\<lparr>collectErrors := (collectErrors c)(''parseFloat'' \<mapsto>
             (case collectErrors c ''parseFloat'' of None \<Rightarrow> 0 | Some v \<Rightarrow> v) + 1)\<rparr>)"
    by (simp add: Split_not_Nil addError_eq)
next
  assume r: "setTemp ParseFloat c (Split line CHR '' '') = Returns (Some e, c')"
  from setTemp_error_cases [OF r] show "probes c' = probes c" by blast
  from setTemp_error_cases [OF r]
  have "c' = addError c ''unknownProbe'' \<or> c' = addError c ''parseFloat''" by blast
  then show "\<exists>t. (t = ''unknownProbe'' \<or> t = ''parseFloat'') \<and>
      c' = c\<lparr>collectErrors := (collectErrors c)(t \<mapsto>
            (case collectErrors c t of None \<Rightarrow> 0 | Some v \<Rightarrow> v) + 1)\<rparr>"
    by (auto simp: addError_eq)
qed

theorem setTemp_failure_counts_once_witness:
  "HasSuffix (hd (Split unknown_marker_line CHR '' '')) '':'' \<and>
   11 < length (Split unknown_marker_line CHR '' '') \<and>
   Split unknown_marker_line CHR '' '' ! 10 \<noteq> ''PID:'' \<and>
   setTemp decimalParser (newCollector_s :: rat collector_s) (Split unknown_marker_line CHR '' '') =
     Returns (Some (EErrorf ''unknown probe type %q'' [ArgStr ''XYZ:'']),
              \<lparr>probes = Map.empty, collectErrors = [''unknownProbe'' \<mapsto> 1]\<rparr>) \<and>
   HasSuffix (hd (Split bad_temperature_line CHR '' '')) '':'' \<and>
   length (Split bad_temperature_line CHR '' '') = 11 \<and>
   decimalParser (Split bad_temperature_line CHR '' '' ! 8) 32 = Inl (LibError ''invalid syntax'') \<and>
   setTemp decimalParser (newCollector_s :: rat collector_s) (Split bad_temperature_line CHR '' '') =
     Returns (Some (EWrapf (LibError ''invalid syntax'') ''failed to parse temperature %q''
                      [ArgStr ''n/a'']),
              \<lparr>probes = Map.empty, collectErrors = [''parseFloat'' \<mapsto> 1]\<rparr>)"
proof -
  have a1: "HasSuffix (hd (Split unknown_marker_line CHR '' '')) '':''"
    by (simp add: unknown_marker_line_def HasSuffix_def)
  have a2: "11 < length (Split unknown_marker_line CHR '' '')"
    by (simp add: unknown_marker_line_def)
  have a3: "Split unknown_marker_line CHR '' '' ! 10 = ''XYZ:''"
    by (simp add: unknown_marker_line_def)
  have b1: "HasSuffix (hd (Split bad_temperature_line CHR '' '')) '':''"
    by (simp add: bad_temperature_line_def HasSuffix_def)
  have b2: "length (Split bad_temperature_line CHR '' '') = 11"
    by (simp add: bad_temperature_line_def)
  have b3: "Split bad_temperature_line CHR '' '' ! 8 = ''n/a''"
    by (simp add: bad_temperature_line_def)
  have b4: "decimalParser ''n/a'' 32 = Inl (LibError ''invalid syntax'')"
    by (simp add: decimalParser_def digit_def)
  from setTemp_failure_counts_once [OF a1, where ParseFloat = decimalParser
      and c = "newCollector_s :: rat collector_s"]
    a2 a3
  have r1: "setTemp decimalParser (newCollector_s :: rat collector_s)
       (Split unknown_marker_line CHR '' '') =
     Returns (Some (EErrorf ''unknown probe type %q'' [ArgStr ''XYZ:'']),
              \<lparr>probes = Map.empty, collectErrors = [''unknownProbe'' \<mapsto> 1]\<rparr>)"
    by (simp add: newCollector_s_def)
  from setTemp_failure_counts_once [OF b1, where ParseFloat = decimalParser
      and err = "LibError ''invalid syntax''" and c = "newCollector_s :: rat collector_s"] b2 b3 b4
  have r2: "setTemp decimalParser (newCollector_s :: rat collector_s)
       (Split bad_temperature_line CHR '' '') =
     Returns (Some (EWrapf (LibError ''invalid syntax'') ''failed to parse temperature %q''
                      [ArgStr ''n/a'']),
              \<lparr>probes = Map.empty, collectErrors = [''parseFloat'' \<mapsto> 1]\<rparr>)"
    by (simp add: newCollector_s_def)
  from a1 a2 a3 b1 b2 b3 b4 r1 r2 show ?thesis by simp
qed

lemma sample_food_tokens:
  "Split sample_food_line CHR '' '' =
     [''2B0000110A442730:'', ''1.0'', ''4.0'', ''39.2'', ''-7.5'', ''-0.2'', ''0.2'', ''-0.0'',
      ''0.3'', ''32.4'']"
  by (simp add: sample_food_line_def)

lemma Split_append_sep: "Split (s @ [sep]) sep = Split s sep @ [[]]"
  by (induction s) (auto split: list.splits simp: Split_not_Nil)

lemma sample_pit_tokens:
  "Split sample_pit_line CHR '' '' =
     [''2A0000110A314B30:'', ''1.0'', ''3.8'', ''38.8'', ''142.5'', ''3.6'', ''0.1'', ''3.7'',
      ''91.7'', ''197.0'', ''PID:'', ''NORM'', ''tgt:107.2'', ''error:77.7'', ''drive:2.0'',
      ''istate:18.2'', ''on:1'', ''off:0'', ''blwr:on'']"
  by (simp add: sample_pit_line_def)

lemma pit_shaped_tokens:
  "Split pit_shaped_line CHR '' '' =
     [''2B0000110A442730:'', ''1.0'', ''3.8'', ''38.8'', ''142.5'', ''3.6'', ''0.1'', ''3.7'',
      ''91.7'', ''197.0'', ''PID:'', ''NORM'', ''tgt:107.2'']"
  by (simp add: pit_shaped_line_def)

lemma decimalParser_samples:
  "decimalParser ''0.3'' 32 = Inr (3 / 10)" "decimalParser ''91.7'' 32 = Inr (917 / 10)"
  by (simp_all add: decimalParser_def digit_def)

text \<open>
  C6. Once an entity exists, its kind stays what it is: whatever lines \<^verbatim>\<open>reader\<close>
  processes afterwards, the call returns, the entity is still there and its
  \<open>probeType\<close> is the one it had, also when a later line with the same id has the
  shape of the other kind. And the kind it has is the one of the record that created
  it: food for a line of 11 tokens, pit otherwise.
\<close>

theorem probe_kind_never_changes:
  "(probes c i = Some p \<longrightarrow>
      (\<exists>e c' p'. reader ParseFloat c lines rerr = Returns (e, c') \<and>
         probes c' i = Some p' \<and> probeType p' = probeType p)) \<and>
   (probes c i = None \<and> setTemp ParseFloat c (Split line CHR '' '') = Returns (e1, c1) \<and>
    probes c1 i = Some p1 \<longrightarrow>
      e1 = None \<and>
      probeType p1 = (if length (Split line CHR '' '') = 11 then ''food'' else ''pit'') \<and>
      (\<exists>e c' p'. reader ParseFloat c1 lines rerr = Returns (e, c') \<and>
         probes c' i = Some p' \<and> probeType p' = probeType p1))"
proof (intro conjI impI)
  assume "probes c i = Some p"
  from reader_keeps_kind_aux [OF this, of ParseFloat lines rerr]
  show "\<exists>e c' p'. reader ParseFloat c lines rerr = Returns (e, c') \<and>
      probes c' i = Some p' \<and> probeType p' = probeType p"
    by blast
next
  assume a: "probes c i = None \<and> setTemp ParseFloat c (Split line CHR '' '') = Returns (e1, c1) \<and>
    probes c1 i = Some p1"
  then have p1: "probes c1 i = Some p1" by simp
  from a setTemp_creates [of c i ParseFloat "Split line CHR '' ''" e1 c1 p1]
  show "e1 = None"
    and "probeType p1 = (if length (Split line CHR '' '') = 11 then ''food'' else ''pit'')"
    by simp_all
  from reader_keeps_kind_aux [OF p1, of ParseFloat lines rerr]
  show "\<exists>e c' p'. reader ParseFloat c1 lines rerr = Returns (e, c') \<and>
      probes c' i = Some p' \<and> probeType p' = probeType p1"
    by blast
qed

theorem probe_kind_never_changes_witness:
  "probes (newCollector_s :: rat collector_s) ''2B0000110A442730'' = None \<and>
   setTemp decimalParser (newCollector_s :: rat collector_s)
       (Split (sample_food_line @ '' '') CHR '' '') =
     Returns (None, newCollector_s\<lparr>probes := [''2B0000110A442730'' \<mapsto>
       \<lparr>id_p = ''2B0000110A442730'', probeType = ''food'', temperature = 3 / 10,
        blower_p = ''unknown'', collections_p = 1\<rparr>]\<rparr>) \<and>
   (\<exists>e c' p'. reader decimalParser
        (newCollector_s\<lparr>probes := [''2B0000110A442730'' \<mapsto>
           \<lparr>id_p = ''2B0000110A442730'', probeType = ''food'', temperature = 3 / 10 :: rat,
            blower_p = ''unknown'', collections_p = 1\<rparr>]\<rparr>)
        [pit_shaped_line] (LibError ''EOF'') = Returns (e, c') \<and>
      probes c' ''2B0000110A442730'' = Some p' \<and> probeType p' = ''food'' \<and>
      temperature p' = 917 / 10 \<and> collections_p p' = 2)"
proof -
  let ?p = "\<lparr>id_p = ''2B0000110A442730'', probeType = ''food'', temperature = 3 / 10 :: rat,
        blower_p = ''unknown'', collections_p = 1\<rparr>"
  let ?c = "newCollector_s\<lparr>probes := [''2B0000110A442730'' \<mapsto> ?p]\<rparr>"
  have n: "probes (newCollector_s :: rat collector_s) ''2B0000110A442730'' = None"
    by (simp add: newCollector_s_def)
  have s: "setTemp decimalParser (newCollector_s :: rat collector_s)
       (Split (sample_food_line @ '' '') CHR '' '') = Returns (None, ?c)"
    by (simp add: Split_append_sep [of _ "CHR '' ''", simplified] sample_food_tokens
        setTemp_Cons HasSuffix_def TrimSuffix_def setTemp_store_def decimalParser_samples
        newCollector_s_def)
  have h: "probes ?c ''2B0000110A442730'' = Some ?p" by simp
  from probe_kind_never_changes [where c = "newCollector_s :: rat collector_s"
      and i = "''2B0000110A442730''" and ParseFloat = decimalParser
      and line = "sample_food_line @ '' ''" and ?e1.0 = None and ?c1.0 = ?c and ?p1.0 = ?p
      and lines = "[pit_shaped_line]" and rerr = "LibError ''EOF''"] n s h
  obtain e c' p' where r: "reader decimalParser ?c [pit_shaped_line] (LibError ''EOF'') = Returns (e, c')"
    "probes c' ''2B0000110A442730'' = Some p'" "probeType p' = ''food''"
    by auto
  have "reader decimalParser ?c [pit_shaped_line] (LibError ''EOF'') =
      Returns (Some (EWrap (LibError ''EOF'') ''ReadLine failed''),
        addError (?c\<lparr>probes := [''2B0000110A442730'' \<mapsto>
            ?p\<lparr>collections_p := 2, temperature := 917 / 10\<rparr>]\<rparr>) ''readLine'')"
    by (simp add: pit_shaped_tokens setTemp_Cons HasSuffix_def TrimSuffix_def setTemp_store_def
        decimalParser_samples errors_Wrap_def)
  with r have "temperature p' = 917 / 10 \<and> collections_p p' = 2"
    by (auto simp: addError_probes)
  with n s r show ?thesis by blast
qed

text \<open>
  C7. Applying the same valid record twice in succession: both calls succeed, the
  entity's collection count is 2 when it did not exist before and the earlier count
  plus 2 otherwise, and its temperature is the value parsed from token 8. The count
  is an \<^verbatim>\<open>int64\<close>: the sum is the wrapping one, and it is the earlier value plus 2 as
  an integer whenever that value is below \<open>2\<^sup>6\<^sup>3 - 2\<close>.
\<close>

theorem same_record_twice:
  assumes "HasSuffix (hd (Split line CHR '' '')) '':''"
    and "length (Split line CHR '' '') = 11 \<or>
         (11 < length (Split line CHR '' '') \<and> Split line CHR '' '' ! 10 = ''PID:'')"
    and "ParseFloat (Split line CHR '' '' ! 8) 32 = Inr t"
  shows "\<exists>c1 c2 p2.
           setTemp ParseFloat c (Split line CHR '' '') = Returns (None, c1) \<and>
           setTemp ParseFloat c1 (Split line CHR '' '') = Returns (None, c2) \<and>
           probes c2 (TrimSuffix (hd (Split line CHR '' '')) '':'') = Some p2 \<and>
           collections_p p2 =
             (case probes c (TrimSuffix (hd (Split line CHR '' '')) '':'') of
                None \<Rightarrow> 2 | Some p \<Rightarrow> collections_p p + 2) \<and>
           (\<forall>p. probes c (TrimSuffix (hd (Split line CHR '' '')) '':'') = Some p \<and>
                sint (collections_p p) < 2 ^ 63 - 2 \<longrightarrow>
                sint (collections_p p2) = sint (collections_p p) + 2) \<and>
           temperature p2 = t"
proof -
  let ?parts = "Split line CHR '' ''"
  let ?k = "if length ?parts = 11 then ''food'' else ''pit''"
  from assms(2) have shape: "(length ?parts = 11 \<and> ?k = ''food'') \<or>
      (11 < length ?parts \<and> ?parts ! 10 = ''PID:'' \<and> ?k = ''pit'')"
    by auto
  note step = setTemp_valid [of ?parts ?k ParseFloat t, OF Split_not_Nil assms(1) shape assms(3)]
  show ?thesis
    using int64_add2_no_overflow by (auto simp: step add.commute split: option.splits)
qed

theorem same_record_twice_witness:
  "HasSuffix (hd (Split (sample_food_line @ '' '') CHR '' '')) '':'' \<and>
   length (Split (sample_food_line @ '' '') CHR '' '') = 11 \<and>
   decimalParser (Split (sample_food_line @ '' '') CHR '' '' ! 8) 32 = Inr (3 / 10) \<and>
   (\<exists>c1 c2 p2.
      setTemp decimalParser (newCollector_s :: rat collector_s)
        (Split (sample_food_line @ '' '') CHR '' '') = Returns (None, c1) \<and>
      setTemp decimalParser c1 (Split (sample_food_line @ '' '') CHR '' '') = Returns (None, c2) \<and>
      probes c2 ''2B0000110A442730'' = Some p2 \<and> collections_p p2 = 2 \<and>
      temperature p2 = 3 / 10) \<and>
   (\<exists>c1 c2 p2.
      setTemp decimalParser
        (newCollector_s\<lparr>probes := [''2B0000110A442730'' \<mapsto>
           \<lparr>id_p = ''2B0000110A442730'', probeType = ''food'', temperature = 1 / 10 :: rat,
            blower_p = ''unknown'', collections_p = 5\<rparr>]\<rparr>)
        (Split (sample_food_line @ '' '') CHR '' '') = Returns (None, c1) \<and>
      setTemp decimalParser c1 (Split (sample_food_line @ '' '') CHR '' '') = Returns (None, c2) \<and>
      probes c2 ''2B0000110A442730'' = Some p2 \<and> collections_p p2 = 7 \<and>
      sint (collections_p p2) = 7 \<and> temperature p2 = 3 / 10)"
proof -
  let ?p = "\<lparr>id_p = ''2B0000110A442730'', probeType = ''food'', temperature = 1 / 10 :: rat,
            blower_p = ''unknown'', collections_p = 5\<rparr>"
  let ?c = "newCollector_s\<lparr>probes := [''2B0000110A442730'' \<mapsto> ?p]\<rparr>"
  have toks: "Split (sample_food_line @ '' '') CHR '' '' = Split sample_food_line CHR '' '' @ [[]]"
    by (rule Split_append_sep)
  have h1: "HasSuffix (hd (Split (sample_food_line @ '' '') CHR '' '')) '':''"
    by (simp add: toks sample_food_tokens HasSuffix_def)
  have h2: "length (Split (sample_food_line @ '' '') CHR '' '') = 11"
    by (simp add: toks sample_food_tokens)
  have h3: "decimalParser (Split (sample_food_line @ '' '') CHR '' '' ! 8) 32 = Inr (3 / 10)"
    by (simp add: toks sample_food_tokens decimalParser_samples)
  have h4: "TrimSuffix (hd (Split (sample_food_line @ '' '') CHR '' '')) '':'' = ''2B0000110A442730''"
    by (simp add: toks sample_food_tokens TrimSuffix_def HasSuffix_def)
  have h5: "probes (newCollector_s :: rat collector_s) ''2B0000110A442730'' = None"
    by (simp add: newCollector_s_def)
  have h6: "probes ?c ''2B0000110A442730'' = Some ?p" by simp
  have h7: "sint (collections_p ?p) < 2 ^ 63 - 2" by simp
  from same_record_twice [OF h1 disjI1 [OF h2], where ParseFloat = decimalParser
      and t = "3 / 10" and c = "newCollector_s :: rat collector_s", OF h3]
  have a: "\<exists>c1 c2 p2.
      setTemp decimalParser (newCollector_s :: rat collector_s)
        (Split (sample_food_line @ '' '') CHR '' '') = Returns (None, c1) \<and>
      setTemp decimalParser c1 (Split (sample_food_line @ '' '') CHR '' '') = Returns (None, c2) \<and>
      probes c2 ''2B0000110A442730'' = Some p2 \<and> collections_p p2 = 2 \<and>
      temperature p2 = 3 / 10"
    unfolding h4 by (simp add: h5)
  from same_record_twice [OF h1 disjI1 [OF h2], where ParseFloat = decimalParser
      and t = "3 / 10" and c = ?c, OF h3]
  obtain c1 c2 p2 where b:
      "setTemp decimalParser ?c (Split (sample_food_line @ '' '') CHR '' '') = Returns (None, c1)"
      "setTemp decimalParser c1 (Split (sample_food_line @ '' '') CHR '' '') = Returns (None, c2)"
      "probes c2 ''2B0000110A442730'' = Some p2" "collections_p p2 = 7"
      "sint (collections_p p2) = sint (collections_p ?p) + 2" "temperature p2 = 3 / 10"
    unfolding h4 using h6 h7 by auto
  from b(5) have "sint (collections_p p2) = 7" by simp
  with a b h1 h2 h3 show ?thesis by blast
qed

text \<open>
  C2, as stated, fails: split on single spaces the food sample has 10 tokens, not 11,
  so \<^verbatim>\<open>setTemp\<close> takes it for a status message and creates no entity.
\<close>

theorem sample_food_line_counterexample:
  "length (Split sample_food_line CHR '' '') = 10 \<and>
   setTemp decimalParser (newCollector_s :: rat collector_s) (Split sample_food_line CHR '' '') =
     Returns (None, newCollector_s) \<and>
   probes (newCollector_s :: rat collector_s) ''2B0000110A442730'' = None"
  by (simp add: sample_food_tokens setTemp_Cons HasSuffix_def newCollector_s_def)

text \<open>
  C2, amended. The food sample as quoted is ignored without error and without any
  change. With one more token (a trailing space, as a line of 11 tokens needs) it
  creates entity \<open>2B0000110A442730\<close> with kind food, and the pit sample creates entity
  \<open>2A0000110A314B30\<close> with kind pit; in both the temperature is the value parsed from
  token 8, the Celsius column (\<open>0.3\<close> and \<open>91.7\<close>), not the Fahrenheit column after it.
\<close>

theorem sample_lines_token8:
  "setTemp ParseFloat c (Split sample_food_line CHR '' '') = Returns (None, c) \<and>
   (ParseFloat ''0.3'' 32 = Inr t \<and> probes c ''2B0000110A442730'' = None \<longrightarrow>
      setTemp ParseFloat c (Split (sample_food_line @ '' '') CHR '' '') =
        Returns (None, c\<lparr>probes := (probes c)(''2B0000110A442730'' \<mapsto>
          \<lparr>id_p = ''2B0000110A442730'', probeType = ''food'', temperature = t,
           blower_p = ''unknown'', collections_p = 1\<rparr>)\<rparr>)) \<and>
   (ParseFloat ''91.7'' 32 = Inr t' \<and> probes c ''2A0000110A314B30'' = None \<longrightarrow>
      setTemp ParseFloat c (Split sample_pit_line CHR '' '') =
        Returns (None, c\<lparr>probes := (probes c)(''2A0000110A314B30'' \<mapsto>
          \<lparr>id_p = ''2A0000110A314B30'', probeType = ''pit'', temperature = t',
           blower_p = ''unknown'', collections_p = 1\<rparr>)\<rparr>))"
  by (simp add: Split_append_sep [of _ "CHR '' ''", simplified] sample_food_tokens
      sample_pit_tokens setTemp_Cons HasSuffix_def TrimSuffix_def setTemp_store_def)

theorem sample_lines_token8_witness:
  "decimalParser ''0.3'' 32 = Inr (3 / 10) \<and> decimalParser ''91.7'' 32 = Inr (917 / 10) \<and>
   probes (newCollector_s :: rat collector_s) ''2B0000110A442730'' = None \<and>
   probes (newCollector_s :: rat collector_s) ''2A0000110A314B30'' = None \<and>
   setTemp decimalParser (newCollector_s :: rat collector_s)
       (Split (sample_food_line @ '' '') CHR '' '') =
     Returns (None, newCollector_s\<lparr>probes := (probes newCollector_s)(''2B0000110A442730'' \<mapsto>
          \<lparr>id_p = ''2B0000110A442730'', probeType = ''food'', temperature = 3 / 10,
           blower_p = ''unknown'', collections_p = 1\<rparr>)\<rparr>) \<and>
   setTemp decimalParser (newCollector_s :: rat collector_s) (Split sample_pit_line CHR '' '') =
     Returns (None, newCollector_s\<lparr>probes := (probes newCollector_s)(''2A0000110A314B30'' \<mapsto>
          \<lparr>id_p = ''2A0000110A314B30'', probeType = ''pit'', temperature = 917 / 10,
           blower_p = ''unknown'', collections_p = 1\<rparr>)\<rparr>)"
proof -
  have h: "probes (newCollector_s :: rat collector_s) ''2B0000110A442730'' = None"
    "probes (newCollector_s :: rat collector_s) ''2A0000110A314B30'' = None"
    by (simp_all add: newCollector_s_def)
  from sample_lines_token8 [where ParseFloat = decimalParser and t = "3 / 10"
      and t' = "917 / 10" and c = "newCollector_s :: rat collector_s"]
    decimalParser_samples h
  show ?thesis by blast
qed

section \<open>Facts about the polling collector\<close>

lemma getStokerStatus_not_200:
  assumes "StatusCode res \<noteq> 200"
  shows "getStokerStatus Unmarshal (Some res, None) = Returns (None, None)"
  using assms by (simp add: getStokerStatus_def errors_Wrapf_def)

lemma recordMetrics_not_200:
  assumes "StatusCode res \<noteq> 200"
  shows "recordMetrics ToLower Unmarshal c (Some res, None) = Panics ''nil pointer dereference''"
  by (simp add: recordMetrics_def getStokerStatus_not_200 [OF assms])

lemma doMetrics_not_200:
  assumes "StatusCode res \<noteq> 200"
  shows "doMetrics ToLower Unmarshal c (Some res, None) = Panics ''nil pointer dereference''"
  by (simp add: doMetrics_def recordMetrics_not_200 [OF assms])

text \<open>Every other outcome of the fetch is handled as the design says.\<close>

lemma doMetrics_fetch_error:
  assumes "getStokerStatus Unmarshal do = Returns (s, Some e)"
  shows "doMetrics ToLower Unmarshal c do =
     Returns (c\<lparr>collections := collections c + 1, failures := failures c + 1\<rparr>)"
  using assms by (simp add: doMetrics_def recordMetrics_def errors_Wrap_def)

lemma doMetrics_fetch_ok:
  assumes "getStokerStatus Unmarshal do = Returns (Some s, None)"
  shows "doMetrics ToLower Unmarshal c do =
     Returns (c\<lparr>sensors :=
                  foldl (\<lambda>m v. if ID v = [] then m
                                else m(ID v \<mapsto> v\<lparr>Name := cleanName ToLower (Name v)\<rparr>))
                    Map.empty (Sensors s),
                blowers :=
                  foldl (\<lambda>m v. if ID_b v = [] then m
                                else m(ID_b v \<mapsto> v\<lparr>Name_b := cleanName ToLower (Name_b v)\<rparr>))
                    Map.empty (Blowers s),
                collections := collections c + 1,
                failures := failures c\<rparr>)"
  using assms by (simp add: doMetrics_def recordMetrics_def Let_def)

lemma getStokerStatus_transport_error:
  "getStokerStatus Unmarshal (res, Some e) = Returns (None, Some (EWrap e ''http request failed''))"
  by (simp add: getStokerStatus_def errors_Wrap_def)

lemma getStokerStatus_read_error:
  "getStokerStatus Unmarshal (Some \<lparr>StatusCode = 200, Body = (data, Some e)\<rparr>, None) =
     Returns (None, Some (EWrap e ''failed to read response body''))"
  by (simp add: getStokerStatus_def errors_Wrap_def)

lemma getStokerStatus_decode_error:
  assumes "Unmarshal data = Inl e"
  shows "getStokerStatus Unmarshal (Some \<lparr>StatusCode = 200, Body = (data, None)\<rparr>, None) =
     Returns (None, Some (EWrap e ''failed to unmarshal response body''))"
  using assms by (simp add: getStokerStatus_def errors_Wrap_def)

lemma getStokerStatus_no_sensors:
  assumes "Unmarshal data = Inr s" and "Sensors s = []"
  shows "getStokerStatus Unmarshal (Some \<lparr>StatusCode = 200, Body = (data, None)\<rparr>, None) =
     Returns (None, Some (ENew ''no sensors found''))"
  using assms by (simp add: getStokerStatus_def errors_New_def)

lemma getStokerStatus_ok:
  assumes "Unmarshal data = Inr s" and "Sensors s \<noteq> []"
  shows "getStokerStatus Unmarshal (Some \<lparr>StatusCode = 200, Body = (data, None)\<rparr>, None) =
     Returns (Some s, None)"
  using assms by (simp add: getStokerStatus_def)

lemma dom_foldl_sensors:
  "dom (foldl (\<lambda>m v. if ID v = [] then m else m(ID v \<mapsto> f v)) m0 vs) =
     dom m0 \<union> {ID v |v. v \<in> set vs \<and> ID v \<noteq> []}"
  by (induction vs arbitrary: m0) auto

text \<open>
  C1. A response with status 404: \<^verbatim>\<open>errors.Wrapf\<close> is given the \<^verbatim>\<open>nil\<close> error of the
  request that succeeded, so \<^verbatim>\<open>getStokerStatus\<close> returns no response and no error;
  \<^verbatim>\<open>recordMetrics\<close> then reads through the \<^verbatim>\<open>nil\<close> response and panics, and no
  failure is counted.
\<close>

theorem getStokerStatus_status_404:
  "getStokerStatus Unmarshal (Some \<lparr>StatusCode = 404, Body = (data, None)\<rparr>, None) =
     Returns (None, None) \<and>
   recordMetrics ToLower Unmarshal c (Some \<lparr>StatusCode = 404, Body = (data, None)\<rparr>, None) =
     Panics ''nil pointer dereference''"
  by (simp add: getStokerStatus_not_200 recordMetrics_not_200)

text \<open>
  C8. A collection cycle whose response has a status other than 200 ends in the panic
  of \<^verbatim>\<open>recordMetrics\<close>: \<^verbatim>\<open>doMetrics\<close> never reaches its two increments, so neither
  the attempt counter nor the failure counter moves.
\<close>

theorem doMetrics_status_not_200:
  assumes "StatusCode res \<noteq> 200"
  shows "doMetrics ToLower Unmarshal c (Some res, None) = Panics ''nil pointer dereference''"
  by (rule doMetrics_not_200 [OF assms])

theorem doMetrics_status_not_200_witness:
  "StatusCode \<lparr>StatusCode = 503, Body = (''busy'', None)\<rparr> \<noteq> 200 \<and>
   doMetrics ToLower_ASCII sample_Unmarshal (newCollector :: rat collector)
     (Some \<lparr>StatusCode = 503, Body = (''busy'', None)\<rparr>, None) =
       Panics ''nil pointer dereference''"
proof -
  have h: "StatusCode \<lparr>StatusCode = 503, Body = (''busy'', None)\<rparr> \<noteq> 200" by simp
  from h doMetrics_status_not_200 [OF h, of ToLower_ASCII sample_Unmarshal newCollector]
  show ?thesis by blast
qed

lemma Replace_single:
  "Replace s old [new] = map (\<lambda>ch. if ch = old then new else ch) s"
  by (induction s) (simp_all add: Replace_def)

lemma replaceRuns_delete: "replaceRuns b s [] = filter nameLabelClass s"
  by (induction s arbitrary: b) simp_all

lemma cleanName_filter:
  "cleanName ToLower s =
     filter nameLabelClass (ToLower (map (\<lambda>ch. if ch = CHR '' '' then CHR ''_'' else ch) s))"
  by (simp add: cleanName_def nameLabelRegex_ReplaceAllString_def replaceRuns_delete
      Replace_single)

lemma cleanName_chars: "list_all nameLabelClass (cleanName ToLower s)"
  by (simp add: cleanName_filter list_all_iff)

lemma foldl_sensors_names:
  assumes "\<And>k v. m0 k = Some v \<Longrightarrow> list_all nameLabelClass (Name v)"
    and "foldl (\<lambda>m v. if ID v = [] then m
                       else m(ID v \<mapsto> v\<lparr>Name := cleanName ToLower (Name v)\<rparr>)) m0 vs k = Some v"
  shows "list_all nameLabelClass (Name v)"
  using assms
proof (induction vs arbitrary: m0)
  case Nil
  then show ?case by simp
next
  case (Cons x xs)
  show ?case
  proof (rule Cons.IH [OF _ Cons.prems(2) [simplified]])
    fix k' v'
    assume "(if ID x = [] then m0
             else m0(ID x \<mapsto> x\<lparr>Name := cleanName ToLower (Name x)\<rparr>)) k' = Some v'"
    then show "list_all nameLabelClass (Name v')"
      using Cons.prems(1) by (auto simp: cleanName_chars split: if_splits)
  qed
qed

lemma foldl_blowers_names:
  assumes "\<And>k v. m0 k = Some v \<Longrightarrow> list_all nameLabelClass (Name_b v)"
    and "foldl (\<lambda>m v. if ID_b v = [] then m
                       else m(ID_b v \<mapsto> v\<lparr>Name_b := cleanName ToLower (Name_b v)\<rparr>)) m0 vs k = Some v"
  shows "list_all nameLabelClass (Name_b v)"
  using assms
proof (induction vs arbitrary: m0)
  case Nil
  then show ?case by simp
next
  case (Cons x xs)
  show ?case
  proof (rule Cons.IH [OF _ Cons.prems(2) [simplified]])
    fix k' v'
    assume "(if ID_b x = [] then m0
             else m0(ID_b x \<mapsto> x\<lparr>Name_b := cleanName ToLower (Name_b x)\<rparr>)) k' = Some v'"
    then show "list_all nameLabelClass (Name_b v')"
      using Cons.prems(1) by (auto simp: cleanName_chars split: if_splits)
  qed
qed

lemma recordMetrics_ok_state:
  assumes "recordMetrics ToLower Unmarshal c do = Returns (None, c')"
  shows "\<exists>s. getStokerStatus Unmarshal do = Returns (Some s, None) \<and>
     sensors c' = foldl (\<lambda>m v. if ID v = [] then m
                       else m(ID v \<mapsto> v\<lparr>Name := cleanName ToLower (Name v)\<rparr>)) Map.empty (Sensors s) \<and>
     blowers c' = foldl (\<lambda>m v. if ID_b v = [] then m
                       else m(ID_b v \<mapsto> v\<lparr>Name_b := cleanName ToLower (Name_b v)\<rparr>)) Map.empty (Blowers s)"
  using assms
  by (auto simp: recordMetrics_def Let_def errors_Wrap_def
      split: exec.splits option.splits if_splits prod.splits)

text \<open>
  C9, as stated, fails: only the space character is turned into an underscore. A tab
  is whitespace too, and \<^verbatim>\<open>cleanName\<close> removes it instead of replacing it.
\<close>

theorem cleanName_tab_counterexample:
  "cleanName ToLower_ASCII [CHR ''a'', CHR 0x09, CHR ''b''] = ''ab'' \<and>
   cleanName ToLower_ASCII [CHR ''a'', CHR 0x09, CHR ''b''] \<noteq> ''a_b''"
  by (simp add: cleanName_filter ToLower_ASCII_def lowerASCII_def nameLabelClass_def)

text \<open>
  C9, amended. For every input and every \<^verbatim>\<open>ToLower\<close>, \<^verbatim>\<open>cleanName\<close> replaces each
  space by an underscore, lowercases the result and keeps exactly the characters of
  \<open>[a-z0-9_]\<close> that remain; so its result consists of such characters only, and so does
  the name of every sensor and blower that a successful \<^verbatim>\<open>recordMetrics\<close> stores.
\<close>

theorem cleanName_label_chars:
  "cleanName ToLower s =
     filter nameLabelClass (ToLower (map (\<lambda>ch. if ch = CHR '' '' then CHR ''_'' else ch) s)) \<and>
   list_all nameLabelClass (cleanName ToLower s) \<and>
   (recordMetrics ToLower Unmarshal c do = Returns (None, c') \<longrightarrow>
      (\<forall>k v. sensors c' k = Some v \<longrightarrow> list_all nameLabelClass (Name v)) \<and>
      (\<forall>k b. blowers c' k = Some b \<longrightarrow> list_all nameLabelClass (Name_b b)))"
proof (intro conjI impI allI)
  show "cleanName ToLower s =
     filter nameLabelClass (ToLower (map (\<lambda>ch. if ch = CHR '' '' then CHR ''_'' else ch) s))"
    by (rule cleanName_filter)
  show "list_all nameLabelClass (cleanName ToLower s)"
    by (rule cleanName_chars)
next
  fix k v
  assume "recordMetrics ToLower Unmarshal c do = Returns (None, c')" and "sensors c' k = Some v"
  with recordMetrics_ok_state [of ToLower Unmarshal c "do" c']
  show "list_all nameLabelClass (Name v)"
    by (auto elim!: foldl_sensors_names [rotated])
next
  fix k b
  assume "recordMetrics ToLower Unmarshal c do = Returns (None, c')" and "blowers c' k = Some b"
  with recordMetrics_ok_state [of ToLower Unmarshal c "do" c']
  show "list_all nameLabelClass (Name_b b)"
    by (auto elim!: foldl_blowers_names [rotated])
qed

lemma sample_recordMetrics:
  "recordMetrics ToLower_ASCII sample_Unmarshal (newCollector :: rat collector)
     (Some \<lparr>StatusCode = 200, Body = (''sample'', None)\<rparr>, None) =
   Returns (None,
     newCollector\<lparr>sensors :=
       [''2A0000110A314B30'' \<mapsto>
          \<lparr>ID = ''2A0000110A314B30'', Name = ''pit_sensor'', Temp = 1174 / 10,
           Blower = Some ''3C0000001ADE7605''\<rparr>,
        ''0E0000110A4E5730'' \<mapsto>
          \<lparr>ID = ''0E0000110A4E5730'', Name = ''4_food_sensor'', Temp = 593 / 10,
           Blower = None\<rparr>],
       blowers :=
       [''3C0000001ADE7605'' \<mapsto>
          \<lparr>ID_b = ''3C0000001ADE7605'', Name_b = ''big_green_egg'', On = 0\<rparr>]\<rparr>)"
  by (simp add: recordMetrics_def getStokerStatus_def sample_Unmarshal_def sample_payload_def
      cleanName_filter ToLower_ASCII_def lowerASCII_def nameLabelClass_def)

theorem cleanName_label_chars_witness:
  "cleanName ToLower_ASCII ''Big Green Egg!'' = ''big_green_egg'' \<and>
   list_all nameLabelClass (cleanName ToLower_ASCII ''Big Green Egg!'') \<and>
   (\<exists>c'. recordMetrics ToLower_ASCII sample_Unmarshal (newCollector :: rat collector)
       (Some \<lparr>StatusCode = 200, Body = (''sample'', None)\<rparr>, None) = Returns (None, c') \<and>
     (\<exists>v. sensors c' ''2A0000110A314B30'' = Some v \<and> Name v = ''pit_sensor'' \<and>
        list_all nameLabelClass (Name v)) \<and>
     (\<exists>b. blowers c' ''3C0000001ADE7605'' = Some b \<and> Name_b b = ''big_green_egg'' \<and>
        list_all nameLabelClass (Name_b b)))"
proof -
  let ?v = "\<lparr>ID = ''2A0000110A314B30'', Name = ''pit_sensor'', Temp = 1174 / 10 :: rat,
             Blower = Some ''3C0000001ADE7605''\<rparr>"
  let ?b = "\<lparr>ID_b = ''3C0000001ADE7605'', Name_b = ''big_green_egg'', On = 0\<rparr>"
  let ?c' = "newCollector\<lparr>sensors :=
       [''2A0000110A314B30'' \<mapsto> ?v,
        ''0E0000110A4E5730'' \<mapsto>
          \<lparr>ID = ''0E0000110A4E5730'', Name = ''4_food_sensor'', Temp = 593 / 10,
           Blower = None\<rparr>],
       blowers := [''3C0000001ADE7605'' \<mapsto> ?b]\<rparr>"
  note inst = cleanName_label_chars [where ToLower = ToLower_ASCII and s = "''Big Green Egg!''"
      and Unmarshal = sample_Unmarshal and c = "newCollector :: rat collector"
      and do = "(Some \<lparr>StatusCode = 200, Body = (''sample'', None)\<rparr>, None)" and c' = ?c']
  have e: "cleanName ToLower_ASCII ''Big Green Egg!'' = ''big_green_egg''"
    by (simp add: cleanName_filter ToLower_ASCII_def lowerASCII_def nameLabelClass_def)
  from inst have l: "list_all nameLabelClass (cleanName ToLower_ASCII ''Big Green Egg!'')"
    by blast
  have r: "recordMetrics ToLower_ASCII sample_Unmarshal (newCollector :: rat collector)
       (Some \<lparr>StatusCode = 200, Body = (''sample'', None)\<rparr>, None) = Returns (None, ?c')"
    by (rule sample_recordMetrics)
  have sv: "sensors ?c' ''2A0000110A314B30'' = Some ?v" by simp
  have bv: "blowers ?c' ''3C0000001ADE7605'' = Some ?b" by simp
  from inst r sv have lv: "list_all nameLabelClass (Name ?v)" by blast
  from inst r bv have lb: "list_all nameLabelClass (Name_b ?b)" by blast
  have nv: "Name ?v = ''pit_sensor''" and nb: "Name_b ?b = ''big_green_egg''" by simp_all
  from e l r sv bv lv lb nv nb show ?thesis by blast
qed

section \<open>Facts about the export\<close>

lemma foldl_all_fail: "foldl (\<lambda>acc v. acc) acc vs = acc"
  by (induction vs) simp_all

text \<open>
  C10. Producing an export leaves the collector as it is: after \<^verbatim>\<open>createMetrics\<close>
  the polling collector, and after \<^verbatim>\<open>Collect\<close> the streaming collector, equals the
  one the call started from, whatever \<^verbatim>\<open>NewConstMetric\<close> does and in whatever order
  the maps are visited. When every construction fails, every metric is skipped (nothing
  is added to the output) and the state is still the same.
\<close>

theorem export_leaves_state:
  "snd (createMetrics NewConstMetric sensorOrder blowerOrder c) = c \<and>
   snd (Collect_s NewConstMetric' errorOrder probeOrder c_s ch) = c_s \<and>
   createMetrics (\<lambda>d t v ls. Inl e) sensorOrder blowerOrder c = ([], c) \<and>
   Collect_s (\<lambda>d t v ls. Inl e) errorOrder probeOrder c_s ch = (ch, c_s)"
  by (simp add: createMetrics_def Collect_s_def Let_def foldl_all_fail case_prod_unfold)

end
